theory Spec2Isabelle
  imports Main
begin

section \<open>Package config: data model\<close>

text \<open>
  The package \<^verbatim>\<open>pkg/component/config\<close> is glue code over the Go runtime (\<^verbatim>\<open>os\<close>,
  \<^verbatim>\<open>time\<close>, \<^verbatim>\<open>path/filepath\<close>) and five libraries (a key-value configuration store, two
  dotenv loaders, a struct-defaulting facility and a sequential combinator).  The functions
  of \<^verbatim>\<open>config.go\<close> are translated one by one.  What they call outside the package is
  either an \<^emph>\<open>oracle\<close> (a field of the record \<open>host\<close>: what the operating system, the zone
  database, a parser or a decoder answers, left arbitrary) or \<^emph>\<open>state\<close> (a field of the
  record \<open>world\<close>: the process environment, the process-wide default location, the clock,
  the global configuration store and the memory holding destination structures).

  Standing conventions:
  \<^item> a Go \<^verbatim>\<open>error\<close> result is an \<open>error option\<close>, \<open>None\<close> being \<^verbatim>\<open>nil\<close>; a result
    \<^verbatim>\<open>(T, error)\<close> of which the value is used only without error is \<open>error + T\<close>;
  \<^item> the handles passed to \<^verbatim>\<open>NewConfig\<close> (context, embedded file system, file system) are
    not nil, the context stays live during the run, and \<^verbatim>\<open>cfg\<close> holds a pointer to the
    destination structure, modelled as a reference into \<open>mem\<close>.
\<close>

type_synonym Paths = "string list"
type_synonym WorkDirPath = string
type_synonym Type = string
type_synonym AppName = string
type_synonym TimeZone = string
type_synonym TimeOffset = int

datatype error = Error string

text \<open>A \<^verbatim>\<open>*time.Location\<close>, identified by name.\<close>

datatype location = Location string

text \<open>Scalar configuration values and the Go zero value of each kind.\<close>

datatype val = VStr string | VInt int | VBool bool

fun isZero :: "val \<Rightarrow> bool" where
  "isZero (VStr s) = (s = [])"
| "isZero (VInt i) = (i = 0)"
| "isZero (VBool b) = (\<not> b)"

type_synonym ref = nat

text \<open>
  The destination structure, an opaque bag of named fields: \<open>fieldVals\<close> maps the (flattened,
  lower-case) key of every field the structure has to its current value, \<open>defaultTags\<close> gives the
  text of the \<^verbatim>\<open>default:"..."\<close> tag of the fields that declare one.
\<close>

record dstruct =
  fieldVals :: "string \<rightharpoonup> val"
  defaultTags :: "string \<rightharpoonup> string"

text \<open>\<^verbatim>\<open>type Config struct\<close>; \<open>None\<close> is a nil pointer.\<close>

record Config =
  Data :: "ref option"
  timeLocation :: "location option"
  appName :: AppName
  workDirPath :: WorkDirPath
  timeZone :: TimeZone
  timeOffset :: TimeOffset

text \<open>The zero value \<^verbatim>\<open>&Config{}\<close>.\<close>

definition Config_zero :: Config where
  "Config_zero = \<lparr>Data = None, timeLocation = None, appName = [], workDirPath = [],
     timeZone = [], timeOffset = 0\<rparr>"

text \<open>The embedded file system (\<^verbatim>\<open>fs.Glob\<close>, \<^verbatim>\<open>ReadFile\<close>) and the afero file system
  (\<^verbatim>\<open>afero.Glob\<close>, \<^verbatim>\<open>Stat\<close>, and the read the store performs through it).\<close>

record embed_fs =
  e_glob :: "string \<Rightarrow> error + string list"
  e_readFile :: "string \<Rightarrow> error + string"

record afero_fs =
  a_glob :: "string \<Rightarrow> error + string list"
  a_stat :: "string \<Rightarrow> error option"
  a_readFile :: "string \<Rightarrow> error + string"

text \<open>
  The oracles.  \<open>zoneAt n l\<close> is the zone name and offset that the \<open>n\<close>-th reading of the
  clock shows in location \<open>l\<close>; \<open>setenvErr\<close> says when \<^verbatim>\<open>os.Setenv\<close> refuses a pair;
  \<open>userHomeDir\<close> and \<open>executable\<close> are the two results of \<^verbatim>\<open>os.UserHomeDir\<close> and
  \<^verbatim>\<open>os.Executable\<close>; \<open>parseConfig t f d\<close> is the store's reader for configuration type \<open>t\<close>
  (and configuration file name \<open>f\<close>) on the bytes \<open>d\<close>, giving flattened lower-case keys;
  \<open>decodeField k v\<close> is the decoding of a setting into the type of the field \<open>k\<close>;
  \<open>parseDefault k s\<close> is the reading of a default tag for the field \<open>k\<close>;
  \<open>osReadFile\<close> reads a file of the real file system.
\<close>

record host =
  setenvErr :: "string \<Rightarrow> string \<Rightarrow> error option"
  zoneAt :: "nat \<Rightarrow> location \<Rightarrow> string \<times> int"
  loadLocation :: "string \<Rightarrow> error + location"
  userHomeDir :: "string \<times> error option"
  executable :: "string \<times> error option"
  filepathDir :: "string \<Rightarrow> string"
  osReadFile :: "string \<Rightarrow> error + string"
  parseDotenv :: "string \<Rightarrow> error + (string \<times> string) list"
  parseConfig :: "string \<Rightarrow> string \<Rightarrow> string \<Rightarrow> error + (string \<times> val) list"
  decodeField :: "string \<Rightarrow> val \<Rightarrow> error + val"
  parseDefault :: "string \<Rightarrow> string \<Rightarrow> error + val"

text \<open>The global configuration store, with the settings that \<^verbatim>\<open>config.go\<close> touches.
  \<open>v_config\<close> is the merged configuration, most recent entry first.\<close>

record viper_state =
  v_config :: "(string \<times> val) list"
  v_envPrefix :: string
  v_automaticEnv :: bool
  v_envKeyReplacer :: "(char \<times> char) list"
  v_configType :: string
  v_configFile :: string
  v_fs :: "afero_fs option"

record world =
  environ :: "string \<rightharpoonup> string"
  timeLocal :: location
  reads :: nat
  viper :: viper_state
  mem :: "ref \<Rightarrow> dstruct"

section \<open>The Go runtime\<close>

definition TZ :: string where
  "TZ = ''TZ''"

definition PathRegularParamsEnv :: string where
  "PathRegularParamsEnv = ''/params/.env''"

definition PathEmbedsParams :: string where
  "PathEmbedsParams = ''embeds/params/''"

definition PathRegularParams :: string where
  "PathRegularParams = ''/params/''"

text \<open>\<^verbatim>\<open>os.Getenv\<close>: the empty string for a variable that is not set.\<close>

definition os_Getenv :: "world \<Rightarrow> string \<Rightarrow> string" where
  "os_Getenv w k = (case environ w k of None \<Rightarrow> [] | Some v \<Rightarrow> v)"

text \<open>\<^verbatim>\<open>os.Setenv\<close>, the initial value of the package variable \<^verbatim>\<open>osSetEnv\<close>.\<close>

definition osSetEnv :: "host \<Rightarrow> string \<Rightarrow> string \<Rightarrow> world \<Rightarrow> error option \<times> world" where
  "osSetEnv h k v w =
     (case setenvErr h k v of
        Some e \<Rightarrow> (Some e, w)
      | None \<Rightarrow> (None, w\<lparr>environ := (environ w)(k \<mapsto> v)\<rparr>))"

text \<open>\<^verbatim>\<open>time.LoadLocation\<close>, the initial value of the package variable
  \<^verbatim>\<open>timeLoadLocation\<close>.\<close>

definition timeLoadLocation :: "host \<Rightarrow> string \<Rightarrow> error + location" where
  "timeLoadLocation h name = loadLocation h name"

text \<open>\<^verbatim>\<open>time.Now().In(l).Zone()\<close>: one reading of the clock.  \<^verbatim>\<open>time.Now().Zone()\<close> is
  the same in the process-wide default location \<^verbatim>\<open>time.Local\<close>.\<close>

definition time_Now_In_Zone :: "host \<Rightarrow> location \<Rightarrow> world \<Rightarrow> (string \<times> int) \<times> world" where
  "time_Now_In_Zone h l w = (zoneAt h (reads w) l, w\<lparr>reads := Suc (reads w)\<rparr>)"

definition time_Now_Zone :: "host \<Rightarrow> world \<Rightarrow> (string \<times> int) \<times> world" where
  "time_Now_Zone h w = time_Now_In_Zone h (timeLocal w) w"

section \<open>initTimeZone and initWorkDirPath\<close>

text \<open>
  The result is the tuple of the named results \<^verbatim>\<open>(tz, loc, offset, err)\<close>.  The bare
  \<^verbatim>\<open>return\<close> of line 55 returns them as they stand: \<^verbatim>\<open>tz\<close> is empty, \<^verbatim>\<open>loc\<close> nil and
  \<^verbatim>\<open>offset\<close> zero.
\<close>

definition initTimeZone_load ::
  "host \<Rightarrow> string \<Rightarrow> world \<Rightarrow> (string \<times> location option \<times> int \<times> error option) \<times> world" where
  "initTimeZone_load h tz w =
     (let ((tzString, offset1), w1) = time_Now_Zone h w in
      case timeLoadLocation h (os_Getenv w1 TZ) of
        Inl e \<Rightarrow> ((tzString, Some (timeLocal w1), offset1, None), w1)
      | Inr loc \<Rightarrow>
          (let ((tz2, offset2), w2) = time_Now_In_Zone h loc w1 in
           if offset1 \<noteq> offset2
           then ((tz2, Some loc, offset2, None), w2\<lparr>timeLocal := loc\<rparr>)
           else ((tz, Some loc, offset1, None), w2)))"

definition initTimeZone ::
  "host \<Rightarrow> TimeZone \<Rightarrow> world \<Rightarrow> (string \<times> location option \<times> int \<times> error option) \<times> world" where
  "initTimeZone h tzArgs w =
     (let tz = os_Getenv w TZ in
      if tz = []
      then (case osSetEnv h TZ tzArgs w of
              (Some e, w1) \<Rightarrow> ((tz, None, 0, Some e), w1)
            | (None, w1) \<Rightarrow> initTimeZone_load h tzArgs w1)
      else initTimeZone_load h tz w)"

definition initWorkDirPath :: "host \<Rightarrow> WorkDirPath" where
  "initWorkDirPath h =
     (let w = fst (userHomeDir h) in
      case executable h of
        (ex, None) \<Rightarrow> filepathDir h ex
      | (ex, Some er) \<Rightarrow> w)"

section \<open>Concrete hosts and worlds\<close>

text \<open>A host on which every call succeeds, with a small zone database, and a fresh process
  state.  They instantiate the theorems below.\<close>

definition viper_new :: viper_state where
  "viper_new = \<lparr>v_config = [], v_envPrefix = [], v_automaticEnv = False,
     v_envKeyReplacer = [], v_configType = [], v_configFile = [], v_fs = None\<rparr>"

definition demo_host :: host where
  "demo_host = \<lparr>
     setenvErr = (\<lambda>k v. None),
     zoneAt = (\<lambda>n l. if l = Location ''Asia/Jakarta'' then (''WIB'', 25200)
                      else if l = Location ''Asia/Tokyo'' then (''JST'', 32400)
                      else (''UTC'', 0)),
     loadLocation = (\<lambda>s. if s = ''Asia/Jakarta'' then Inr (Location ''Asia/Jakarta'')
                      else if s = ''Asia/Tokyo'' then Inr (Location ''Asia/Tokyo'')
                      else if s = ''UTC'' \<or> s = [] then Inr (Location ''UTC'')
                      else Inl (Error ''unknown time zone'')),
     userHomeDir = (''/home/app'', None),
     executable = (''/opt/app/bin/app'', None),
     filepathDir = (\<lambda>p. if p = ''/opt/app/bin/app'' then ''/opt/app/bin'' else ''.''),
     osReadFile = (\<lambda>p. Inl (Error ''no such file'')),
     parseDotenv = (\<lambda>d. if d = ''LOG=info'' then Inr [(''LOG'', ''info'')]
                      else Inl (Error ''bad dotenv'')),
     parseConfig = (\<lambda>t f d. if d = ''db.port: 5432'' then Inr [(''db.port'', VInt 5432)]
                      else if d = ''db.port: 5433'' then Inr [(''db.port'', VInt 5433)]
                      else if d = ''db.port: 0'' then Inr [(''db.port'', VInt 0)]
                      else Inl (Error ''bad config'')),
     decodeField = (\<lambda>k v. if k = ''db.port'' then
                        (case v of VInt i \<Rightarrow> Inr (VInt i)
                         | VStr s \<Rightarrow> if s = ''5434'' then Inr (VInt 5434)
                                     else Inl (Error ''cannot parse as int'')
                         | VBool b \<Rightarrow> Inl (Error ''expected int''))
                      else Inr v),
     parseDefault = (\<lambda>k s. if s = ''3306'' then Inr (VInt 3306)
                      else Inl (Error ''bad default''))\<rparr>"

definition demo_struct :: dstruct where
  "demo_struct = \<lparr>fieldVals = [''db.port'' \<mapsto> VInt 0, ''db.host'' \<mapsto> VStr []],
     defaultTags = [''db.port'' \<mapsto> ''3306'']\<rparr>"

definition demo_world :: world where
  "demo_world = \<lparr>environ = Map.empty, timeLocal = Location ''Local'', reads = 0,
     viper = viper_new, mem = (\<lambda>r. demo_struct)\<rparr>"

section \<open>Properties of initTimeZone and initWorkDirPath\<close>

lemmas tz_defs = initTimeZone_def initTimeZone_load_def time_Now_Zone_def
  time_Now_In_Zone_def osSetEnv_def os_Getenv_def timeLoadLocation_def TZ_def

text \<open>
  Claim C9.  \<^verbatim>\<open>initWorkDirPath\<close> has no error result and always returns a path: when
  \<^verbatim>\<open>os.Executable\<close> answers without error, the directory of the executable; otherwise
  whatever \<^verbatim>\<open>os.UserHomeDir\<close> gave as the home directory.
\<close>

theorem initWorkDirPath_total:
  "(snd (executable h) = None \<longrightarrow> initWorkDirPath h = filepathDir h (fst (executable h))) \<and>
   (snd (executable h) \<noteq> None \<longrightarrow> initWorkDirPath h = fst (userHomeDir h))"
  by (cases "executable h") (auto simp: initWorkDirPath_def)

text \<open>
  The two branches on the demonstration host: the executable is known, and it is not.
\<close>

theorem initWorkDirPath_total_witness:
  "initWorkDirPath demo_host = ''/opt/app/bin'' \<and>
   initWorkDirPath (demo_host\<lparr>executable := ([], Some (Error ''no executable''))\<rparr>) = ''/home/app''"
  using initWorkDirPath_total [of demo_host]
    initWorkDirPath_total [of "demo_host\<lparr>executable := ([], Some (Error ''no executable''))\<rparr>"]
  by (simp add: demo_host_def)

text \<open>
  Claim C4.  When the call reaches \<^verbatim>\<open>timeLoadLocation\<close> (the variable \<^verbatim>\<open>TZ\<close> was set, or
  setting it succeeded) and loading the location of the working zone name fails,
  \<^verbatim>\<open>initTimeZone\<close> returns a nil error, the zone name and the offset read from the wall clock
  in the default location, and the default location itself, which it leaves as it was.
\<close>

theorem initTimeZone_load_fallback:
  assumes reached: "os_Getenv w TZ \<noteq> [] \<or> setenvErr h TZ tzArgs = None"
    and fails: "loadLocation h (if os_Getenv w TZ = [] then tzArgs else os_Getenv w TZ) = Inl e"
  shows "fst (initTimeZone h tzArgs w) =
           (fst (zoneAt h (reads w) (timeLocal w)), Some (timeLocal w),
            snd (zoneAt h (reads w) (timeLocal w)), None) \<and>
         timeLocal (snd (initTimeZone h tzArgs w)) = timeLocal w"
  using assms
  by (auto simp: tz_defs Let_def split: option.splits prod.splits sum.splits if_splits)

text \<open>
  A zone that the database of the demonstration host does not have.
\<close>

theorem initTimeZone_load_fallback_witness:
  "fst (initTimeZone demo_host ''Mars/Olympus'' demo_world) =
     (''UTC'', Some (Location ''Local''), 0, None) \<and>
   timeLocal (snd (initTimeZone demo_host ''Mars/Olympus'' demo_world)) = Location ''Local''"
  using initTimeZone_load_fallback [of demo_world demo_host "''Mars/Olympus''" "Error ''unknown time zone''"]
  by (simp add: demo_host_def demo_world_def os_Getenv_def TZ_def)

text \<open>
  Claim C5, as stated, fails in its last part.  With equal offsets the name returned is not
  the zone name read from the wall clock: the default location is Jakarta, whose clock shows
  the name WIB, the requested zone is \<^verbatim>\<open>Asia/Jakarta\<close>, the offsets agree, and the name
  returned is the requested \<^verbatim>\<open>Asia/Jakarta\<close>.
\<close>

theorem initTimeZone_keeps_base_name_refuted:
  "\<not> (\<forall>h tzArgs w loc.
        (os_Getenv w TZ \<noteq> [] \<or> setenvErr h TZ tzArgs = None) \<longrightarrow>
        loadLocation h (if os_Getenv w TZ = [] then tzArgs else os_Getenv w TZ) = Inr loc \<longrightarrow>
        snd (zoneAt h (Suc (reads w)) loc) = snd (zoneAt h (reads w) (timeLocal w)) \<longrightarrow>
        fst (fst (initTimeZone h tzArgs w)) = fst (zoneAt h (reads w) (timeLocal w)))"
proof -
  have "fst (fst (initTimeZone demo_host ''Asia/Jakarta''
          (demo_world\<lparr>timeLocal := Location ''Asia/Jakarta''\<rparr>))) = ''Asia/Jakarta''"
    by (simp add: tz_defs demo_host_def demo_world_def Let_def)
  moreover have "fst (zoneAt demo_host (reads (demo_world\<lparr>timeLocal := Location ''Asia/Jakarta''\<rparr>))
          (timeLocal (demo_world\<lparr>timeLocal := Location ''Asia/Jakarta''\<rparr>))) = ''WIB''"
    by (simp add: demo_host_def demo_world_def)
  moreover have "os_Getenv (demo_world\<lparr>timeLocal := Location ''Asia/Jakarta''\<rparr>) TZ = []"
    by (simp add: os_Getenv_def demo_world_def)
  moreover have "setenvErr demo_host TZ ''Asia/Jakarta'' = None"
    by (simp add: demo_host_def)
  moreover have "loadLocation demo_host ''Asia/Jakarta'' = Inr (Location ''Asia/Jakarta'')"
    by (simp add: demo_host_def)
  moreover have "snd (zoneAt demo_host (Suc (reads (demo_world\<lparr>timeLocal := Location ''Asia/Jakarta''\<rparr>)))
       (Location ''Asia/Jakarta'')) =
     snd (zoneAt demo_host (reads (demo_world\<lparr>timeLocal := Location ''Asia/Jakarta''\<rparr>))
       (timeLocal (demo_world\<lparr>timeLocal := Location ''Asia/Jakarta''\<rparr>)))"
    by (simp add: demo_host_def demo_world_def)
  ultimately show ?thesis
    apply (intro notI)
    apply (drule spec [of _ demo_host])
    apply (drule spec [of _ "''Asia/Jakarta''"])
    apply (drule spec [of _ "demo_world\<lparr>timeLocal := Location ''Asia/Jakarta''\<rparr>"])
    apply (drule spec [of _ "Location ''Asia/Jakarta''"])
    apply simp
    done
qed

text \<open>
  Claim C5, amended.  When loading the location of the working zone name succeeds: if the
  offset seen in that location differs from the base offset, the default location becomes the
  loaded one and the name and offset seen in it are returned; otherwise the \<^emph>\<open>working zone
  name\<close> (the value of \<^verbatim>\<open>TZ\<close> found, or else the requested zone) is returned with the base
  offset, and the default location is left as it was.  The loaded location is returned in both
  cases.
\<close>

theorem initTimeZone_reconcile:
  assumes reached: "os_Getenv w TZ \<noteq> [] \<or> setenvErr h TZ tzArgs = None"
    and loads: "loadLocation h (if os_Getenv w TZ = [] then tzArgs else os_Getenv w TZ) = Inr loc"
  shows "(snd (zoneAt h (Suc (reads w)) loc) \<noteq> snd (zoneAt h (reads w) (timeLocal w)) \<longrightarrow>
            fst (initTimeZone h tzArgs w) =
              (fst (zoneAt h (Suc (reads w)) loc), Some loc, snd (zoneAt h (Suc (reads w)) loc), None) \<and>
            timeLocal (snd (initTimeZone h tzArgs w)) = loc) \<and>
         (snd (zoneAt h (Suc (reads w)) loc) = snd (zoneAt h (reads w) (timeLocal w)) \<longrightarrow>
            fst (initTimeZone h tzArgs w) =
              (if os_Getenv w TZ = [] then tzArgs else os_Getenv w TZ, Some loc,
               snd (zoneAt h (reads w) (timeLocal w)), None) \<and>
            timeLocal (snd (initTimeZone h tzArgs w)) = timeLocal w)"
  using assms
  by (auto simp: tz_defs Let_def split: option.splits prod.splits sum.splits if_splits)

text \<open>
  Tokyo against a clock at offset zero (offsets differ), and UTC against it (they agree).
\<close>

theorem initTimeZone_reconcile_witness:
  "fst (initTimeZone demo_host ''Asia/Tokyo'' demo_world) =
     (''JST'', Some (Location ''Asia/Tokyo''), 32400, None) \<and>
   timeLocal (snd (initTimeZone demo_host ''Asia/Tokyo'' demo_world)) = Location ''Asia/Tokyo'' \<and>
   fst (initTimeZone demo_host ''UTC'' demo_world) =
     (''UTC'', Some (Location ''UTC''), 0, None) \<and>
   timeLocal (snd (initTimeZone demo_host ''UTC'' demo_world)) = Location ''Local''"
  using initTimeZone_reconcile [of demo_world demo_host "''Asia/Tokyo''" "Location ''Asia/Tokyo''"]
    initTimeZone_reconcile [of demo_world demo_host "''UTC''" "Location ''UTC''"]
  by (simp add: demo_host_def demo_world_def os_Getenv_def TZ_def)

text \<open>
  Claim C6.  When \<^verbatim>\<open>TZ\<close> holds a non-empty value beforehand, \<^verbatim>\<open>initTimeZone\<close> leaves the
  whole environment as it was and returns a nil error; and when the location of that value
  loads, the location returned is that one and the offset returned is the offset the clock
  shows in it.
\<close>

theorem initTimeZone_TZ_preset:
  assumes preset: "os_Getenv w TZ \<noteq> []"
  shows "environ (snd (initTimeZone h tzArgs w)) = environ w \<and>
         snd (snd (snd (fst (initTimeZone h tzArgs w)))) = None \<and>
         (\<forall>loc. loadLocation h (os_Getenv w TZ) = Inr loc \<longrightarrow>
            fst (snd (fst (initTimeZone h tzArgs w))) = Some loc \<and>
            fst (snd (snd (fst (initTimeZone h tzArgs w)))) = snd (zoneAt h (Suc (reads w)) loc))"
  using assms
  by (auto simp: tz_defs Let_def split: option.splits prod.splits sum.splits if_splits)

text \<open>
  \<^verbatim>\<open>TZ\<close> is Tokyo beforehand and Jakarta is requested: Tokyo is what comes back.
\<close>

theorem initTimeZone_TZ_preset_witness:
  "environ (snd (initTimeZone demo_host ''Asia/Jakarta''
       (demo_world\<lparr>environ := [''TZ'' \<mapsto> ''Asia/Tokyo'']\<rparr>))) = [''TZ'' \<mapsto> ''Asia/Tokyo''] \<and>
   fst (initTimeZone demo_host ''Asia/Jakarta''
       (demo_world\<lparr>environ := [''TZ'' \<mapsto> ''Asia/Tokyo'']\<rparr>)) =
     (''JST'', Some (Location ''Asia/Tokyo''), 32400, None)"
  using initTimeZone_TZ_preset [of "demo_world\<lparr>environ := [''TZ'' \<mapsto> ''Asia/Tokyo'']\<rparr>"
      demo_host "''Asia/Jakarta''"]
  by (simp add: tz_defs demo_host_def demo_world_def Let_def)

end
